theory Spec2Isabelle
  imports Main "HOL-Library.Sublist"
begin

section \<open>The authenticated API client of \<^verbatim>\<open>lib/api.ts\<close>\<close>

text \<open>
  The client is a thin wrapper around \<^verbatim>\<open>fetch\<close>: it asks the identity provider for a
  token, composes the headers, issues one request, parses the body and either returns
  the parsed value or throws. Everything outside the file (the process environment, the
  identity provider, \<^verbatim>\<open>fetch\<close>, the response's \<^verbatim>\<open>json()\<close>, the platform's conversions) is
  a field of the record \<open>world\<close>; a thrown error is the \<open>Inl\<close> of a sum; the calls made on
  the outside (\<^verbatim>\<open>fetch\<close>, \<^verbatim>\<open>console.error\<close>) are returned as a list of events, in the order
  in which they happen.

  Strings are lists of code units below 256 (\<open>char\<close>).
\<close>

subsection \<open>Values, errors and the outside world\<close>

text \<open>An error object: its \<^verbatim>\<open>name\<close> and its \<^verbatim>\<open>message\<close>.\<close>

datatype jserror = JSError (err_name: string) (err_message: string)

text \<open>\<^verbatim>\<open>new Error(message)\<close>\<close>

definition new_Error :: "string \<Rightarrow> jserror" where
  "new_Error m = JSError ''Error'' m"

text \<open>
  What \<^verbatim>\<open>response.json()\<close> resolves with: any JSON value. The type \<open>'n\<close> stands for the
  platform's double-precision numbers; the two conversions the code applies to a value
  that may be a number are taken from the platform (see \<open>world\<close>). The list of a \<open>JObject\<close>
  holds the own properties of the parsed object, one entry for each key.
\<close>

datatype 'n json =
    JNull
  | JBool bool
  | JNumber 'n
  | JString string
  | JArray "'n json list"
  | JObject "(string \<times> 'n json) list"

text \<open>
  \<^verbatim>\<open>RequestInit\<close>, as far as this file uses it: the method (\<open>method_name\<close>), the body
  and the headers, each of them optional. The headers are a \<^verbatim>\<open>Record<string, string>\<close>.
\<close>

record RequestInit =
  method_name :: "string option"
  body :: "string option"
  headers :: "(string \<rightharpoonup> string) option"

text \<open>
  The response of \<^verbatim>\<open>fetch\<close>: its status code and what its \<^verbatim>\<open>json()\<close> gives, the parsed
  body or the error thrown when the body is not JSON.
\<close>

record 'n Response =
  status :: nat
  json :: "jserror + 'n json"

text \<open>\<^verbatim>\<open>response.ok\<close> is true exactly for the statuses 200 to 299 (Fetch standard).\<close>

definition ok :: "'n Response \<Rightarrow> bool" where
  "ok response = (200 \<le> status response \<and> status response \<le> 299)"

text \<open>The signed-in user of the identity provider: \<^verbatim>\<open>getIdToken()\<close> gives a string or throws.\<close>

record User =
  getIdToken :: "jserror + string"

record 'n world =
  NEXT_PUBLIC_API_URL :: "string option"
  currentUser :: "User option"
  fetch :: "string \<Rightarrow> RequestInit \<Rightarrow> jserror + 'n Response"
  number_falsy :: "'n \<Rightarrow> bool"
  ToString :: "'n json \<Rightarrow> jserror + string"

text \<open>
  \<open>number_falsy\<close> is the platform's test for the numbers that count as false (zero and
  NaN); \<open>ToString\<close> is the platform's conversion of a value to a string, which the model
  asks only for values that are not strings already.
\<close>

datatype event =
    ConsoleError string jserror
  | FetchCall string RequestInit

text \<open>The requests issued, in order: the \<^verbatim>\<open>fetch\<close> calls among the events.\<close>

fun requests :: "event list \<Rightarrow> (string \<times> RequestInit) list" where
  "requests [] = []"
| "requests (FetchCall url request # es) = (url, request) # requests es"
| "requests (ConsoleError _ _ # es) = requests es"

subsection \<open>The platform's conversions\<close>

text \<open>The decimal digits of a status code, as a template literal renders a number.\<close>

definition digit_char :: "nat \<Rightarrow> char" where
  "digit_char d = char_of (48 + d)"

fun string_of_nat :: "nat \<Rightarrow> string" where
  "string_of_nat n =
     (if n < 10 then [digit_char n]
      else string_of_nat (n div 10) @ [digit_char (n mod 10)])"

text \<open>Truthiness of a JSON value.\<close>

definition ToBoolean :: "'n world \<Rightarrow> 'n json \<Rightarrow> bool" where
  "ToBoolean w v =
     (case v of
        JNull \<Rightarrow> False
      | JBool b \<Rightarrow> b
      | JNumber n \<Rightarrow> \<not> number_falsy w n
      | JString s \<Rightarrow> s \<noteq> []
      | JArray _ \<Rightarrow> True
      | JObject _ \<Rightarrow> True)"

text \<open>
  Reading the property \<^verbatim>\<open>message\<close> of a parsed body: a \<^verbatim>\<open>TypeError\<close> on \<^verbatim>\<open>null\<close> (the text
  of its message is the engine's), the own property of an object, and \<^verbatim>\<open>undefined\<close>
  (\<open>None\<close>) on a missing property and on every other value.
\<close>

definition get_message :: "'n json \<Rightarrow> jserror + 'n json option" where
  "get_message data =
     (case data of
        JNull \<Rightarrow> Inl (JSError ''TypeError'' ''Cannot read properties of null (reading 'message')'')
      | JObject props \<Rightarrow> Inr (map_of props ''message'')
      | _ \<Rightarrow> Inr None)"

text \<open>
  \<^verbatim>\<open>JSON.stringify\<close> of a string: the quoted string, with the two-character escapes of
  JSON and \<^verbatim>\<open>\u00XX\<close> for the other control characters.
\<close>

definition hex_digit :: "nat \<Rightarrow> char" where
  "hex_digit d = (if d < 10 then char_of (48 + d) else char_of (87 + d))"

definition escape_char :: "char \<Rightarrow> string" where
  "escape_char c =
     (let n = (of_char c :: nat) in
      if n = 34 then [CHR 0x5C, CHR 0x22]
      else if n = 92 then [CHR 0x5C, CHR 0x5C]
      else if n = 8 then [CHR 0x5C, CHR ''b'']
      else if n = 12 then [CHR 0x5C, CHR ''f'']
      else if n = 10 then [CHR 0x5C, CHR ''n'']
      else if n = 13 then [CHR 0x5C, CHR ''r'']
      else if n = 9 then [CHR 0x5C, CHR ''t'']
      else if n < 32 then [CHR 0x5C, CHR ''u'', CHR ''0'', CHR ''0'', hex_digit (n div 16), hex_digit (n mod 16)]
      else [c])"

definition quote :: "string \<Rightarrow> string" where
  "quote s = [CHR 0x22] @ concat (map escape_char s) @ [CHR 0x22]"

text \<open>
  The objects the public methods serialise have string properties only, and some of
  them optional: an object is the list of its own properties in insertion order, with
  \<open>None\<close> for a property whose value is \<^verbatim>\<open>undefined\<close>. \<^verbatim>\<open>JSON.stringify\<close> leaves those out.
  The keys are the property names of the interfaces of the file (\<^verbatim>\<open>email\<close>, \<^verbatim>\<open>firstName\<close>
  and so on); a key that reads as an array index, which JavaScript would list before
  the others, is outside this model.
\<close>

type_synonym str_object = "(string \<times> string option) list"

fun members :: "str_object \<Rightarrow> string list" where
  "members [] = []"
| "members ((k, None) # ps) = members ps"
| "members ((k, Some v) # ps) = (quote k @ '':'' @ quote v) # members ps"

fun join :: "string \<Rightarrow> string list \<Rightarrow> string" where
  "join sep [] = []"
| "join sep [x] = x"
| "join sep (x # y # ys) = x @ sep @ join sep (y # ys)"

definition JSON_stringify :: "str_object \<Rightarrow> string" where
  "JSON_stringify data = ''{'' @ join '','' (members data) @ ''}''"

subsection \<open>The class \<^verbatim>\<open>ApiService\<close>\<close>

text \<open>\<^verbatim>\<open>process.env.NEXT_PUBLIC_API_URL || 'http://localhost:8000'\<close>\<close>

definition API_BASE_URL :: "'n world \<Rightarrow> string" where
  "API_BASE_URL w =
     (case NEXT_PUBLIC_API_URL w of
        None \<Rightarrow> ''http://localhost:8000''
      | Some u \<Rightarrow> if u \<noteq> [] then u else ''http://localhost:8000'')"

record ApiService =
  baseURL :: string

text \<open>The constructor: its argument defaults to \<open>API_BASE_URL\<close>.\<close>

definition new_ApiService :: "'n world \<Rightarrow> string option \<Rightarrow> ApiService" where
  "new_ApiService w arg =
     \<lparr>baseURL = (case arg of None \<Rightarrow> API_BASE_URL w | Some b \<Rightarrow> b)\<rparr>"

text \<open>
  \<^verbatim>\<open>getAuthToken\<close>: no user gives \<^verbatim>\<open>null\<close>; an error of \<^verbatim>\<open>getIdToken\<close> is logged and gives
  \<^verbatim>\<open>null\<close> as well.
\<close>

definition getAuthToken :: "'n world \<Rightarrow> event list \<times> string option" where
  "getAuthToken w =
     (case currentUser w of
        None \<Rightarrow> ([], None)
      | Some user \<Rightarrow>
          (case getIdToken user of
             Inr token \<Rightarrow> ([], Some token)
           | Inl error \<Rightarrow> ([ConsoleError ''Error getting auth token:'' error], None)))"

text \<open>
  The headers of the request: \<^verbatim>\<open>Content-Type\<close> first, the caller's headers spread over
  it, and \<^verbatim>\<open>Authorization\<close> assigned last when the token is truthy.
\<close>

definition make_headers :: "RequestInit \<Rightarrow> string option \<Rightarrow> (string \<rightharpoonup> string)" where
  "make_headers options token =
     (let headers0 = [''Content-Type'' \<mapsto> ''application/json'']
                       ++ (case headers options of None \<Rightarrow> Map.empty | Some h \<Rightarrow> h)
      in case token of
           None \<Rightarrow> headers0
         | Some t \<Rightarrow> if t \<noteq> [] then headers0(''Authorization'' \<mapsto> ''Bearer '' @ t) else headers0)"

text \<open>
  The fallback message of a response that is not ok:
  \<^verbatim>\<open>`HTTP error! status: ${response.status}`\<close>.
\<close>

definition fallback_message :: "nat \<Rightarrow> string" where
  "fallback_message code = ''HTTP error! status: '' @ string_of_nat code"

text \<open>
  The argument of \<^verbatim>\<open>new Error\<close> on a response that is not ok,
  \<^verbatim>\<open>data.message || `HTTP error! status: ${response.status}`\<close>, converted to a string:
  the message when it is truthy, the fallback when it is missing or falsy.
\<close>

definition error_text :: "'n world \<Rightarrow> 'n Response \<Rightarrow> 'n json \<Rightarrow> jserror + string" where
  "error_text w response data =
     (case get_message data of
        Inl e \<Rightarrow> Inl e
      | Inr None \<Rightarrow> Inr (fallback_message (status response))
      | Inr (Some m) \<Rightarrow>
          if ToBoolean w m
          then (case m of JString s \<Rightarrow> Inr s | _ \<Rightarrow> ToString w m)
          else Inr (fallback_message (status response)))"

text \<open>The body of the \<^verbatim>\<open>try\<close> block, after the call of \<^verbatim>\<open>fetch\<close>.\<close>

definition handle_response :: "'n world \<Rightarrow> 'n Response \<Rightarrow> jserror + 'n json" where
  "handle_response w response =
     (case json response of
        Inl e \<Rightarrow> Inl e
      | Inr data \<Rightarrow>
          if \<not> ok response
          then (case error_text w response data of
                  Inl e \<Rightarrow> Inl e
                | Inr m \<Rightarrow> Inl (new_Error m))
          else Inr data)"

definition makeRequest ::
  "'n world \<Rightarrow> ApiService \<Rightarrow> string \<Rightarrow> RequestInit \<Rightarrow> event list \<times> (jserror + 'n json)" where
  "makeRequest w this endpoint options =
     (let url = baseURL this @ endpoint;
          (log, token) = getAuthToken w;
          request = options\<lparr>headers := Some (make_headers options token)\<rparr>;
          attempt = (case fetch w url request of
                       Inl e \<Rightarrow> Inl e
                     | Inr response \<Rightarrow> handle_response w response)
      in case attempt of
           Inl error \<Rightarrow>
             (log @ [FetchCall url request,
                     ConsoleError (''API request failed for '' @ endpoint @ '':'') error],
              Inl error)
         | Inr data \<Rightarrow> (log @ [FetchCall url request], Inr data))"

text \<open>A call without options: \<^verbatim>\<open>options = {}\<close>.\<close>

definition no_options :: RequestInit where
  "no_options = \<lparr>method_name = None, body = None, headers = None\<rparr>"

subsection \<open>The public methods\<close>

definition healthCheck :: "'n world \<Rightarrow> ApiService \<Rightarrow> event list \<times> (jserror + 'n json)" where
  "healthCheck w this = makeRequest w this ''/health'' no_options"

definition signUp ::
  "'n world \<Rightarrow> ApiService \<Rightarrow> str_object \<Rightarrow> event list \<times> (jserror + 'n json)" where
  "signUp w this data =
     makeRequest w this ''/api/auth/signup''
       \<lparr>method_name = Some ''POST'', body = Some (JSON_stringify data), headers = None\<rparr>"

definition createSocialUserProfile ::
  "'n world \<Rightarrow> ApiService \<Rightarrow> str_object \<Rightarrow> event list \<times> (jserror + 'n json)" where
  "createSocialUserProfile w this data =
     makeRequest w this ''/api/auth/create-social-profile''
       \<lparr>method_name = Some ''POST'', body = Some (JSON_stringify data), headers = None\<rparr>"

definition verifyToken :: "'n world \<Rightarrow> ApiService \<Rightarrow> event list \<times> (jserror + 'n json)" where
  "verifyToken w this =
     makeRequest w this ''/api/auth/verify-token''
       \<lparr>method_name = Some ''POST'', body = None, headers = None\<rparr>"

definition resetPassword ::
  "'n world \<Rightarrow> ApiService \<Rightarrow> string \<Rightarrow> event list \<times> (jserror + 'n json)" where
  "resetPassword w this email =
     makeRequest w this ''/api/auth/reset-password''
       \<lparr>method_name = Some ''POST'', body = Some (JSON_stringify [(''email'', Some email)]),
        headers = None\<rparr>"

definition getProfile :: "'n world \<Rightarrow> ApiService \<Rightarrow> event list \<times> (jserror + 'n json)" where
  "getProfile w this = makeRequest w this ''/api/auth/profile'' no_options"

definition updateProfile ::
  "'n world \<Rightarrow> ApiService \<Rightarrow> str_object \<Rightarrow> event list \<times> (jserror + 'n json)" where
  "updateProfile w this data =
     makeRequest w this ''/api/auth/profile''
       \<lparr>method_name = Some ''PATCH'', body = Some (JSON_stringify data), headers = None\<rparr>"

definition refreshToken :: "'n world \<Rightarrow> ApiService \<Rightarrow> event list \<times> (jserror + 'n json)" where
  "refreshToken w this =
     makeRequest w this ''/api/auth/refresh-token''
       \<lparr>method_name = Some ''POST'', body = None, headers = None\<rparr>"

definition deleteAccount :: "'n world \<Rightarrow> ApiService \<Rightarrow> event list \<times> (jserror + 'n json)" where
  "deleteAccount w this =
     makeRequest w this ''/api/auth/account''
       \<lparr>method_name = Some ''DELETE'', body = None, headers = None\<rparr>"

text \<open>The exported instance: \<^verbatim>\<open>new ApiService()\<close>.\<close>

definition apiService :: "'n world \<Rightarrow> ApiService" where
  "apiService w = new_ApiService w None"

subsection \<open>The operations, as one type\<close>

text \<open>
  The nine public methods with their arguments, so that a statement can speak of every
  operation; \<open>invoke\<close> calls the method.
\<close>

datatype operation =
    HealthCheck
  | SignUp str_object
  | CreateSocialUserProfile str_object
  | VerifyToken
  | ResetPassword string
  | GetProfile
  | UpdateProfile str_object
  | RefreshToken
  | DeleteAccount

fun invoke :: "'n world \<Rightarrow> ApiService \<Rightarrow> operation \<Rightarrow> event list \<times> (jserror + 'n json)" where
  "invoke w this HealthCheck = healthCheck w this"
| "invoke w this (SignUp data) = signUp w this data"
| "invoke w this (CreateSocialUserProfile data) = createSocialUserProfile w this data"
| "invoke w this VerifyToken = verifyToken w this"
| "invoke w this (ResetPassword email) = resetPassword w this email"
| "invoke w this GetProfile = getProfile w this"
| "invoke w this (UpdateProfile data) = updateProfile w this data"
| "invoke w this RefreshToken = refreshToken w this"
| "invoke w this DeleteAccount = deleteAccount w this"

text \<open>
  The table of the specification (section 6, backend endpoints consumed): the path of
  each operation. It is written from the specification, to be compared with the paths
  in the methods.
\<close>

fun spec_endpoint :: "operation \<Rightarrow> string" where
  "spec_endpoint HealthCheck = ''/health''"
| "spec_endpoint (SignUp _) = ''/api/auth/signup''"
| "spec_endpoint (CreateSocialUserProfile _) = ''/api/auth/create-social-profile''"
| "spec_endpoint VerifyToken = ''/api/auth/verify-token''"
| "spec_endpoint (ResetPassword _) = ''/api/auth/reset-password''"
| "spec_endpoint GetProfile = ''/api/auth/profile''"
| "spec_endpoint (UpdateProfile _) = ''/api/auth/profile''"
| "spec_endpoint RefreshToken = ''/api/auth/refresh-token''"
| "spec_endpoint DeleteAccount = ''/api/auth/account''"

subsection \<open>What a call was seen to do\<close>

text \<open>
  Read off the events of a call: for each request issued, the value of one header
  (\<open>None\<close> when the request has no such header); its URL, method and body; and the
  answer of \<^verbatim>\<open>fetch\<close> to it.
\<close>

definition header_sent :: "event list \<Rightarrow> string \<Rightarrow> string option list" where
  "header_sent es name =
     map (\<lambda>(url, request). case headers request of None \<Rightarrow> None | Some h \<Rightarrow> h name)
       (requests es)"

definition request_lines :: "event list \<Rightarrow> (string \<times> string option \<times> string option) list" where
  "request_lines es = map (\<lambda>(url, request). (url, method_name request, body request)) (requests es)"

definition answers :: "'n world \<Rightarrow> event list \<Rightarrow> (jserror + 'n Response) list" where
  "answers w es = map (\<lambda>(url, request). fetch w url request) (requests es)"

subsection \<open>Mocked worlds\<close>

text \<open>
  A world without an environment variable, whose \<^verbatim>\<open>fetch\<close> answers every request with
  the same response. Its JSON has no numbers, and its bodies have no message that is
  not a string, so that its two conversions are never asked.
\<close>

definition mock_world :: "User option \<Rightarrow> unit Response \<Rightarrow> unit world" where
  "mock_world user response =
     \<lparr>NEXT_PUBLIC_API_URL = None,
      currentUser = user,
      fetch = (\<lambda>url request. Inr response),
      number_falsy = (\<lambda>n. False),
      ToString = (\<lambda>v. Inr ''[object Object]'')\<rparr>"

definition signed_in :: "string \<Rightarrow> User option" where
  "signed_in token = Some \<lparr>getIdToken = Inr token\<rparr>"

definition provider_fails :: "User option" where
  "provider_fails =
     Some \<lparr>getIdToken = Inl (JSError ''FirebaseError'' ''auth/network-request-failed'')\<rparr>"

definition envelope_ok :: "unit json" where
  "envelope_ok =
     JObject [(''success'', JBool True), (''message'', JString ''ok''),
              (''data'', JObject [(''uid'', JString ''u1'')])]"

definition envelope_invalid_token :: "unit json" where
  "envelope_invalid_token =
     JObject [(''success'', JBool False), (''message'', JString ''invalid token'')]"

definition envelope_empty_message :: "unit json" where
  "envelope_empty_message =
     JObject [(''success'', JBool False), (''message'', JString [])]"

definition not_json :: "jserror + unit json" where
  "not_json = Inl (JSError ''SyntaxError'' ''Unexpected end of JSON input'')"

definition response_200_ok :: "unit Response" where
  "response_200_ok = \<lparr>status = 200, json = Inr envelope_ok\<rparr>"

definition response_401_invalid_token :: "unit Response" where
  "response_401_invalid_token = \<lparr>status = 401, json = Inr envelope_invalid_token\<rparr>"

definition response_401_empty_message :: "unit Response" where
  "response_401_empty_message = \<lparr>status = 401, json = Inr envelope_empty_message\<rparr>"

definition response_500_not_json :: "unit Response" where
  "response_500_not_json = \<lparr>status = 500, json = not_json\<rparr>"

definition response_200_not_json :: "unit Response" where
  "response_200_not_json = \<lparr>status = 200, json = not_json\<rparr>"

section \<open>Facts about a call\<close>

text \<open>
  Every public method is one call of \<open>makeRequest\<close> without headers of its own; a call of
  \<open>makeRequest\<close> issues exactly one request, and its outcome is what the handling of
  the response makes of the answer to that request.
\<close>

declare string_of_nat.simps [simp del]

lemma requests_append: "requests (xs @ ys) = requests xs @ requests ys"
  by (induction xs rule: requests.induct) simp_all

lemma getAuthToken_requests: "requests (fst (getAuthToken w)) = []"
  by (simp add: getAuthToken_def split: option.splits sum.splits)

lemma getAuthToken_no_user: "currentUser w = None \<Longrightarrow> snd (getAuthToken w) = None"
  by (simp add: getAuthToken_def)

lemma getAuthToken_throws:
  "currentUser w = Some u \<Longrightarrow> getIdToken u = Inl e \<Longrightarrow> snd (getAuthToken w) = None"
  by (simp add: getAuthToken_def)

lemma getAuthToken_token:
  "currentUser w = Some u \<Longrightarrow> getIdToken u = Inr t \<Longrightarrow> snd (getAuthToken w) = Some t"
  by (simp add: getAuthToken_def)

lemma makeRequest_requests:
  "requests (fst (makeRequest w this endpoint options)) =
     [(baseURL this @ endpoint,
       options\<lparr>headers := Some (make_headers options (snd (getAuthToken w)))\<rparr>)]"
proof -
  obtain log token where g: "getAuthToken w = (log, token)"
    by (cases "getAuthToken w")
  have "requests log = []"
    using getAuthToken_requests [of w] g by simp
  then show ?thesis
    by (simp add: makeRequest_def Let_def g requests_append split: sum.splits)
qed

lemma makeRequest_outcome:
  "snd (makeRequest w this endpoint options) =
     (case fetch w (baseURL this @ endpoint)
             (options\<lparr>headers := Some (make_headers options (snd (getAuthToken w)))\<rparr>) of
        Inl e \<Rightarrow> Inl e
      | Inr response \<Rightarrow> handle_response w response)"
proof -
  obtain log token where g: "getAuthToken w = (log, token)"
    by (cases "getAuthToken w")
  show ?thesis
    by (simp add: makeRequest_def Let_def g split: sum.splits)
qed

lemma makeRequest_header_sent:
  "header_sent (fst (makeRequest w this endpoint options)) name =
     [make_headers options (snd (getAuthToken w)) name]"
  by (simp add: header_sent_def makeRequest_requests)

lemma makeRequest_request_lines:
  "request_lines (fst (makeRequest w this endpoint options)) =
     [(baseURL this @ endpoint, method_name options, body options)]"
  by (simp add: request_lines_def makeRequest_requests)

lemma makeRequest_answered:
  assumes "answers w (fst (makeRequest w this endpoint options)) = [a]"
  shows "snd (makeRequest w this endpoint options) =
           (case a of Inl e \<Rightarrow> Inl e | Inr response \<Rightarrow> handle_response w response)"
  using assms by (simp add: answers_def makeRequest_requests makeRequest_outcome)

lemma invoke_cases:
  obtains options where "headers options = None"
    and "invoke w this op = makeRequest w this (spec_endpoint op) options"
proof (cases op)
  case HealthCheck
  show thesis
    by (rule that [of no_options]) (simp_all add: HealthCheck healthCheck_def no_options_def)
next
  case (SignUp data)
  show thesis
    by (rule that [of "\<lparr>method_name = Some ''POST'', body = Some (JSON_stringify data), headers = None\<rparr>"])
      (simp_all add: SignUp signUp_def)
next
  case (CreateSocialUserProfile data)
  show thesis
    by (rule that [of "\<lparr>method_name = Some ''POST'', body = Some (JSON_stringify data), headers = None\<rparr>"])
      (simp_all add: CreateSocialUserProfile createSocialUserProfile_def)
next
  case VerifyToken
  show thesis
    by (rule that [of "\<lparr>method_name = Some ''POST'', body = None, headers = None\<rparr>"])
      (simp_all add: VerifyToken verifyToken_def)
next
  case (ResetPassword email)
  show thesis
    by (rule that [of "\<lparr>method_name = Some ''POST'',
          body = Some (JSON_stringify [(''email'', Some email)]), headers = None\<rparr>"])
      (simp_all add: ResetPassword resetPassword_def)
next
  case GetProfile
  show thesis
    by (rule that [of no_options]) (simp_all add: GetProfile getProfile_def no_options_def)
next
  case (UpdateProfile data)
  show thesis
    by (rule that [of "\<lparr>method_name = Some ''PATCH'', body = Some (JSON_stringify data), headers = None\<rparr>"])
      (simp_all add: UpdateProfile updateProfile_def)
next
  case RefreshToken
  show thesis
    by (rule that [of "\<lparr>method_name = Some ''POST'', body = None, headers = None\<rparr>"])
      (simp_all add: RefreshToken refreshToken_def)
next
  case DeleteAccount
  show thesis
    by (rule that [of "\<lparr>method_name = Some ''DELETE'', body = None, headers = None\<rparr>"])
      (simp_all add: DeleteAccount deleteAccount_def)
qed

lemma invoke_answered:
  assumes "answers w (fst (invoke w this op)) = [a]"
  shows "snd (invoke w this op) =
           (case a of Inl e \<Rightarrow> Inl e | Inr response \<Rightarrow> handle_response w response)"
proof -
  obtain options where i: "invoke w this op = makeRequest w this (spec_endpoint op) options"
    by (rule invoke_cases)
  show ?thesis
    using assms unfolding i by (rule makeRequest_answered)
qed

lemma invoke_one_answer: "\<exists>a. answers w (fst (invoke w this op)) = [a]"
proof -
  obtain options where i: "invoke w this op = makeRequest w this (spec_endpoint op) options"
    by (rule invoke_cases)
  show ?thesis
    by (simp add: i answers_def makeRequest_requests)
qed

lemma answers_mock_world:
  "answers (mock_world user response) (fst (invoke (mock_world user response) this op)) =
     [Inr response]"
proof -
  obtain a where a: "answers (mock_world user response)
      (fst (invoke (mock_world user response) this op)) = [a]"
    using invoke_one_answer by blast
  then show ?thesis
    by (auto simp: answers_def mock_world_def)
qed

lemma answers_constant_fetch:
  assumes "\<And>url request. fetch w url request = Inr response"
  shows "answers w (fst (invoke w this op)) = [Inr response]"
proof -
  obtain options where i: "invoke w this op = makeRequest w this (spec_endpoint op) options"
    by (rule invoke_cases)
  show ?thesis
    by (simp add: i answers_def makeRequest_requests assms)
qed

lemma make_headers_content_type:
  "headers options = None \<Longrightarrow> make_headers options token ''Content-Type'' = Some ''application/json''"
  by (simp add: make_headers_def Let_def split: option.splits)

lemma invoke_authorization:
  "header_sent (fst (invoke w this op)) ''Authorization'' =
     [case snd (getAuthToken w) of
        None \<Rightarrow> None
      | Some t \<Rightarrow> if t \<noteq> [] then Some (''Bearer '' @ t) else None]"
proof -
  obtain options where o: "headers options = None"
    and i: "invoke w this op = makeRequest w this (spec_endpoint op) options"
    by (rule invoke_cases)
  show ?thesis
    by (simp add: i makeRequest_header_sent make_headers_def Let_def o split: option.splits)
qed

lemma handle_response_ok:
  "ok response \<Longrightarrow> json response = Inr data \<Longrightarrow> handle_response w response = Inr data"
  by (simp add: handle_response_def)

lemma handle_response_not_json:
  "json response = Inl e \<Longrightarrow> handle_response w response = Inl e"
  by (simp add: handle_response_def)

lemma handle_response_message:
  "\<not> ok response \<Longrightarrow> json response = Inr (JObject props) \<Longrightarrow>
   map_of props ''message'' = Some (JString m) \<Longrightarrow> m \<noteq> [] \<Longrightarrow>
   handle_response w response = Inl (new_Error m)"
  by (simp add: handle_response_def error_text_def get_message_def ToBoolean_def)

lemma handle_response_falsy_message:
  "\<not> ok response \<Longrightarrow> json response = Inr (JObject props) \<Longrightarrow>
   map_of props ''message'' = Some (JString []) \<Longrightarrow>
   handle_response w response = Inl (new_Error (fallback_message (status response)))"
  by (simp add: handle_response_def error_text_def get_message_def ToBoolean_def)

lemma fallback_401: "fallback_message 401 = ''HTTP error! status: 401''"
  by code_simp

lemma fallback_500: "fallback_message 500 = ''HTTP error! status: 500''"
  by code_simp

lemma stringify_firstName:
  \<open>JSON_stringify [(''firstName'', Some ''A'')] = ''{"firstName":"A"}''\<close>
  by code_simp

lemma apiService_default:
  "NEXT_PUBLIC_API_URL w = None \<Longrightarrow> baseURL (apiService w) = ''http://localhost:8000''"
  by (simp add: apiService_def new_ApiService_def API_BASE_URL_def)

lemma invoke_urls: "map fst (requests (fst (invoke w this op))) = [baseURL this @ spec_endpoint op]"
proof -
  obtain options where i: "invoke w this op = makeRequest w this (spec_endpoint op) options"
    by (rule invoke_cases)
  show ?thesis
    by (simp add: i makeRequest_requests)
qed

section \<open>The claims of the specification\<close>

subsection \<open>C1: an error response with a message\<close>

text \<open>
  C1, amended. For every operation, when \<^verbatim>\<open>fetch\<close> answers with a response whose
  status is not in the success range 200 to 299 and whose body parses to an envelope
  whose \<^verbatim>\<open>message\<close> is a string that is not empty (a 401 response with the envelope
  \<^verbatim>\<open>{success:false, message:"invalid token"}\<close>, say), the call rejects with an
  \<^verbatim>\<open>Error\<close> whose message is that string. The claim as written holds for every message
  but the empty one, which is falsy: there the fallback message takes its place.
\<close>

theorem rejects_with_envelope_message:
  assumes "\<And>url request. fetch w url request = Inr response"
    and "\<not> ok response"
    and "json response = Inr (JObject props)"
    and "map_of props ''message'' = Some (JString m)"
    and "m \<noteq> []"
  shows "snd (invoke w this op) = Inl (new_Error m) \<and> err_message (new_Error m) = m"
proof -
  have "answers w (fst (invoke w this op)) = [Inr response]"
    using assms(1) by (rule answers_constant_fetch)
  then have "snd (invoke w this op) = handle_response w response"
    using invoke_answered [of w this op "Inr response"] by simp
  also have "\<dots> = Inl (new_Error m)"
    using assms(2-5) by (rule handle_response_message)
  finally show ?thesis
    by (simp add: new_Error_def)
qed

theorem rejects_with_envelope_message_witness:
  "snd (invoke (mock_world (signed_in ''tok'') response_401_invalid_token)
          (apiService (mock_world (signed_in ''tok'') response_401_invalid_token)) GetProfile)
     = Inl (new_Error ''invalid token'')"
proof -
  let ?w = "mock_world (signed_in ''tok'') response_401_invalid_token"
  have a: "\<And>url request. fetch ?w url request = Inr response_401_invalid_token"
    by (simp add: mock_world_def)
  have b: "\<not> ok response_401_invalid_token"
    by (simp add: ok_def response_401_invalid_token_def)
  have c: "json response_401_invalid_token =
      Inr (JObject [(''success'', JBool False), (''message'', JString ''invalid token'')])"
    by (simp add: response_401_invalid_token_def envelope_invalid_token_def)
  have d: "map_of [(''success'', JBool False), (''message'', JString ''invalid token'')] ''message''
      = Some (JString ''invalid token'' :: unit json)"
    by simp
  have e: "''invalid token'' \<noteq> []"
    by simp
  show ?thesis
    using rejects_with_envelope_message [OF a b c d e,
        where this = "apiService ?w" and op = GetProfile]
    by blast
qed

text \<open>
  C1 as written fails for the empty message: a 401 response with the envelope
  \<^verbatim>\<open>{success:false, message:""}\<close> makes \<^verbatim>\<open>getProfile\<close> reject with the fallback message
  of 401, which is not the message of the envelope.
\<close>

theorem empty_envelope_message_counterexample:
  "\<not> ok response_401_empty_message
   \<and> json response_401_empty_message
       = Inr (JObject [(''success'', JBool False), (''message'', JString [])])
   \<and> snd (invoke (mock_world (signed_in ''tok'') response_401_empty_message)
            (apiService (mock_world (signed_in ''tok'') response_401_empty_message)) GetProfile)
       = Inl (new_Error ''HTTP error! status: 401'')
   \<and> err_message (new_Error ''HTTP error! status: 401'') \<noteq> []"
proof -
  let ?w = "mock_world (signed_in ''tok'') response_401_empty_message"
  have a: "answers ?w (fst (invoke ?w (apiService ?w) GetProfile)) = [Inr response_401_empty_message]"
    by (rule answers_mock_world)
  have b: "\<not> ok response_401_empty_message"
    by (simp add: ok_def response_401_empty_message_def)
  have c: "json response_401_empty_message
      = Inr (JObject [(''success'', JBool False), (''message'', JString [])])"
    by (simp add: response_401_empty_message_def envelope_empty_message_def)
  have "snd (invoke ?w (apiService ?w) GetProfile) = handle_response ?w response_401_empty_message"
    using invoke_answered [OF a] by simp
  also have "\<dots> = Inl (new_Error (fallback_message (status response_401_empty_message)))"
    using b c by (rule handle_response_falsy_message) simp
  also have "status response_401_empty_message = 401"
    by (simp add: response_401_empty_message_def)
  finally have d: "snd (invoke ?w (apiService ?w) GetProfile)
      = Inl (new_Error ''HTTP error! status: 401'')"
    by (simp add: fallback_401)
  show ?thesis
    using b c d by (simp add: new_Error_def)
qed

subsection \<open>C2: an error response that is not JSON\<close>

text \<open>
  C2. The claim says that a response with a status outside the success range, 500 say,
  and a body that is not JSON makes the call reject with the fallback message built from
  the status code. In the code \<^verbatim>\<open>response.json()\<close> is awaited before \<^verbatim>\<open>response.ok\<close> is
  looked at, so its error is what the \<^verbatim>\<open>catch\<close> block logs and throws again, and the
  fallback is never built. Evaluated on a response with status 500 whose \<^verbatim>\<open>json()\<close> throws
  a \<^verbatim>\<open>SyntaxError\<close>: \<^verbatim>\<open>healthCheck\<close> rejects with that \<^verbatim>\<open>SyntaxError\<close>, which is not the
  fallback error of 500 and whose message does not contain \<^verbatim>\<open>500\<close>.
\<close>

theorem status_500_not_json_rethrows_parse_error:
  "\<not> ok response_500_not_json
   \<and> json response_500_not_json = Inl (JSError ''SyntaxError'' ''Unexpected end of JSON input'')
   \<and> snd (invoke (mock_world None response_500_not_json)
            (apiService (mock_world None response_500_not_json)) HealthCheck)
       = Inl (JSError ''SyntaxError'' ''Unexpected end of JSON input'')
   \<and> JSError ''SyntaxError'' ''Unexpected end of JSON input''
       \<noteq> new_Error (fallback_message 500)
   \<and> \<not> sublist ''500'' ''Unexpected end of JSON input''"
proof -
  let ?w = "mock_world None response_500_not_json"
  have a: "answers ?w (fst (invoke ?w (apiService ?w) HealthCheck)) = [Inr response_500_not_json]"
    by (rule answers_mock_world)
  have b: "\<not> ok response_500_not_json"
    by (simp add: ok_def response_500_not_json_def)
  have c: "json response_500_not_json = Inl (JSError ''SyntaxError'' ''Unexpected end of JSON input'')"
    by (simp add: response_500_not_json_def not_json_def)
  have d: "snd (invoke ?w (apiService ?w) HealthCheck)
      = Inl (JSError ''SyntaxError'' ''Unexpected end of JSON input'')"
    using invoke_answered [OF a] handle_response_not_json [OF c] by simp
  have e: "JSError ''SyntaxError'' ''Unexpected end of JSON input'' \<noteq> new_Error (fallback_message 500)"
    by (simp add: new_Error_def)
  have f: "\<not> sublist ''500'' ''Unexpected end of JSON input''"
    by code_simp
  show ?thesis
    using b c d e f by blast
qed

subsection \<open>C3: no token\<close>

text \<open>
  C3. For every operation, when the identity provider has no current user, or when
  \<^verbatim>\<open>getIdToken\<close> throws, the failure is swallowed: exactly one request is issued, it has
  no \<^verbatim>\<open>Authorization\<close> header, and the outcome of the call is what the handling of the
  response makes of the answer to that request.
\<close>

theorem token_failure_is_swallowed:
  assumes "currentUser w = None \<or> (\<exists>u e. currentUser w = Some u \<and> getIdToken u = Inl e)"
  shows "header_sent (fst (invoke w this op)) ''Authorization'' = [None]
         \<and> map (case_sum Inl (handle_response w)) (answers w (fst (invoke w this op)))
             = [snd (invoke w this op)]"
proof -
  from assms have t: "snd (getAuthToken w) = None"
    by (auto simp: getAuthToken_no_user getAuthToken_throws)
  have 1: "header_sent (fst (invoke w this op)) ''Authorization'' = [None]"
    by (simp add: invoke_authorization t)
  obtain a where a: "answers w (fst (invoke w this op)) = [a]"
    using invoke_one_answer by blast
  have 2: "map (case_sum Inl (handle_response w)) (answers w (fst (invoke w this op)))
             = [snd (invoke w this op)]"
    by (simp add: a invoke_answered [OF a] split: sum.splits)
  from 1 2 show ?thesis ..
qed

theorem token_failure_is_swallowed_witness:
  "header_sent (fst (invoke (mock_world None response_200_ok)
       (apiService (mock_world None response_200_ok)) GetProfile)) ''Authorization'' = [None]
   \<and> header_sent (fst (invoke (mock_world provider_fails response_200_ok)
       (apiService (mock_world provider_fails response_200_ok)) DeleteAccount)) ''Authorization'' = [None]"
proof -
  have a: "currentUser (mock_world None response_200_ok) = None \<or>
      (\<exists>u e. currentUser (mock_world None response_200_ok) = Some u \<and> getIdToken u = Inl e)"
    by (simp add: mock_world_def)
  have b: "currentUser (mock_world provider_fails response_200_ok) = None \<or>
      (\<exists>u e. currentUser (mock_world provider_fails response_200_ok) = Some u \<and> getIdToken u = Inl e)"
    by (simp add: mock_world_def provider_fails_def)
  show ?thesis
    using token_failure_is_swallowed [OF a, where this = "apiService (mock_world None response_200_ok)"
          and op = GetProfile]
      token_failure_is_swallowed [OF b,
        where this = "apiService (mock_world provider_fails response_200_ok)" and op = DeleteAccount]
    by blast
qed

subsection \<open>C4: the bearer header\<close>

text \<open>
  C4, amended. For every operation, whenever the identity provider gave a token that
  is not the empty string, the \<^verbatim>\<open>Authorization\<close> header of the request is exactly
  \<^verbatim>\<open>Bearer \<close> followed by the token. The claim as written holds for every token but the
  empty string, which the test \<^verbatim>\<open>if (token)\<close> takes for no token.
\<close>

theorem bearer_header_of_nonempty_token:
  assumes "currentUser w = Some u" and "getIdToken u = Inr t" and "t \<noteq> []"
  shows "header_sent (fst (invoke w this op)) ''Authorization'' = [Some (''Bearer '' @ t)]"
proof -
  have t: "snd (getAuthToken w) = Some t"
    using assms(1,2) by (rule getAuthToken_token)
  show ?thesis
    using assms(3) by (simp add: invoke_authorization t)
qed

theorem bearer_header_of_nonempty_token_witness:
  "header_sent (fst (invoke (mock_world (signed_in ''tok'') response_200_ok)
       (apiService (mock_world (signed_in ''tok'') response_200_ok)) VerifyToken)) ''Authorization''
     = [Some ''Bearer tok'']"
proof -
  have a: "currentUser (mock_world (signed_in ''tok'') response_200_ok) = Some \<lparr>getIdToken = Inr ''tok''\<rparr>"
    by (simp add: mock_world_def signed_in_def)
  have b: "getIdToken \<lparr>getIdToken = Inr ''tok''\<rparr> = Inr ''tok''"
    by simp
  have c: "''tok'' \<noteq> []"
    by simp
  show ?thesis
    using bearer_header_of_nonempty_token [OF a b c,
        where this = "apiService (mock_world (signed_in ''tok'') response_200_ok)" and op = VerifyToken]
    by simp
qed

text \<open>
  C4 as written fails for the empty token: the provider gives the empty string, and the
  request of \<^verbatim>\<open>verifyToken\<close> does not have the header \<^verbatim>\<open>Bearer \<close> followed by it.
\<close>

theorem empty_token_counterexample:
  "snd (getAuthToken (mock_world (signed_in []) response_200_ok)) = Some []
   \<and> header_sent (fst (invoke (mock_world (signed_in []) response_200_ok)
        (apiService (mock_world (signed_in []) response_200_ok)) VerifyToken)) ''Authorization''
       \<noteq> [Some (''Bearer '' @ [])]"
proof -
  let ?w = "mock_world (signed_in []) response_200_ok"
  have t: "snd (getAuthToken ?w) = Some []"
    by (simp add: getAuthToken_def mock_world_def signed_in_def)
  have "header_sent (fst (invoke ?w (apiService ?w) VerifyToken)) ''Authorization'' = [None]"
    by (simp only: invoke_authorization t) simp
  with t show ?thesis
    by simp
qed

subsection \<open>C5: a successful response\<close>

text \<open>
  C5. For every operation, when \<^verbatim>\<open>fetch\<close> answers with a response whose status is in
  the success range and whose body parses as JSON, the call resolves with exactly the
  parsed value.
\<close>

theorem resolves_with_parsed_envelope:
  assumes "\<And>url request. fetch w url request = Inr response"
    and "ok response"
    and "json response = Inr data"
  shows "snd (invoke w this op) = Inr data"
proof -
  have "answers w (fst (invoke w this op)) = [Inr response]"
    using assms(1) by (rule answers_constant_fetch)
  then have "snd (invoke w this op) = handle_response w response"
    using invoke_answered [of w this op "Inr response"] by simp
  also have "\<dots> = Inr data"
    using assms(2,3) by (rule handle_response_ok)
  finally show ?thesis .
qed

theorem resolves_with_parsed_envelope_witness:
  "snd (invoke (mock_world (signed_in ''tok'') response_200_ok)
          (apiService (mock_world (signed_in ''tok'') response_200_ok)) GetProfile)
     = Inr (JObject [(''success'', JBool True), (''message'', JString ''ok''),
              (''data'', JObject [(''uid'', JString ''u1'')])])"
proof -
  let ?w = "mock_world (signed_in ''tok'') response_200_ok"
  have a: "\<And>url request. fetch ?w url request = Inr response_200_ok"
    by (simp add: mock_world_def)
  have b: "ok response_200_ok"
    by (simp add: ok_def response_200_ok_def)
  have c: "json response_200_ok = Inr envelope_ok"
    by (simp add: response_200_ok_def)
  show ?thesis
    using resolves_with_parsed_envelope [OF a b c,
        where this = "apiService ?w" and op = GetProfile]
    by (simp only: envelope_ok_def)
qed

subsection \<open>C6: the content type\<close>

text \<open>
  C6. For every operation invoked through a public method, whatever the token, the
  method and the body, the one request issued has the header
  \<^verbatim>\<open>Content-Type: application/json\<close>.
\<close>

theorem content_type_always_sent:
  "header_sent (fst (invoke w this op)) ''Content-Type'' = [Some ''application/json'']"
proof -
  obtain options where o: "headers options = None"
    and i: "invoke w this op = makeRequest w this (spec_endpoint op) options"
    by (rule invoke_cases)
  show ?thesis
    by (simp only: i makeRequest_header_sent make_headers_content_type [OF o])
qed

theorem content_type_always_sent_witness:
  "header_sent (fst (invoke (mock_world None response_200_ok)
       (apiService (mock_world None response_200_ok)) (ResetPassword ''a@b.c''))) ''Content-Type''
     = [Some ''application/json'']"
  by (rule content_type_always_sent)

subsection \<open>C7: updating the profile\<close>

text \<open>
  C7. \<^verbatim>\<open>updateProfile({firstName:"A"})\<close> issues exactly one request: to the base URL
  followed by \<^verbatim>\<open>/api/auth/profile\<close>, with the method \<^verbatim>\<open>PATCH\<close> and the body
  \<^verbatim>\<open>{"firstName":"A"}\<close>, which has no other field.
\<close>

theorem updateProfile_firstName_request:
  \<open>request_lines (fst (updateProfile w this [(''firstName'', Some ''A'')]))
     = [(baseURL this @ ''/api/auth/profile'', Some ''PATCH'', Some ''{"firstName":"A"}'')]\<close>
  by (simp add: updateProfile_def makeRequest_request_lines stringify_firstName)

theorem updateProfile_firstName_request_witness:
  \<open>request_lines (fst (updateProfile (mock_world (signed_in ''tok'') response_200_ok)
       (apiService (mock_world (signed_in ''tok'') response_200_ok)) [(''firstName'', Some ''A'')]))
     = [(''http://localhost:8000/api/auth/profile'', Some ''PATCH'', Some ''{"firstName":"A"}'')]\<close>
  using updateProfile_firstName_request [of "mock_world (signed_in ''tok'') response_200_ok"
      "apiService (mock_world (signed_in ''tok'') response_200_ok)"]
  by (simp add: apiService_def new_ApiService_def API_BASE_URL_def mock_world_def)

subsection \<open>C8: the base URL\<close>

text \<open>
  C8. When the environment has no \<^verbatim>\<open>NEXT_PUBLIC_API_URL\<close>, the base URL of the exported
  client is \<^verbatim>\<open>http://localhost:8000\<close>, and the URL of the request of every operation is
  that base URL followed by the path of the operation in the table of the specification.
\<close>

theorem default_base_url:
  assumes "NEXT_PUBLIC_API_URL w = None"
  shows "baseURL (apiService w) = ''http://localhost:8000''
         \<and> map fst (requests (fst (invoke w (apiService w) op)))
             = [''http://localhost:8000'' @ spec_endpoint op]"
  using apiService_default [OF assms] invoke_urls [of w "apiService w" op] by simp

theorem default_base_url_witness:
  "baseURL (apiService (mock_world None response_200_ok)) = ''http://localhost:8000''
   \<and> map fst (requests (fst (invoke (mock_world None response_200_ok)
         (apiService (mock_world None response_200_ok)) RefreshToken)))
       = [''http://localhost:8000/api/auth/refresh-token'']"
proof -
  have a: "NEXT_PUBLIC_API_URL (mock_world None response_200_ok) = None"
    by (simp add: mock_world_def)
  show ?thesis
    using default_base_url [OF a, of RefreshToken] by simp
qed

subsection \<open>C9: the empty token\<close>

text \<open>
  C9. For every operation, if the identity provider returns the empty string as the
  token, then a token was obtained (\<^verbatim>\<open>getAuthToken\<close> returns the empty string, not
  \<^verbatim>\<open>null\<close>), and yet the request has no \<^verbatim>\<open>Authorization\<close> header.
\<close>

theorem empty_token_sends_no_authorization:
  assumes "currentUser w = Some u" and "getIdToken u = Inr []"
  shows "snd (getAuthToken w) = Some []
         \<and> header_sent (fst (invoke w this op)) ''Authorization'' = [None]"
proof -
  have t: "snd (getAuthToken w) = Some []"
    using assms by (rule getAuthToken_token)
  have "header_sent (fst (invoke w this op)) ''Authorization'' = [None]"
    by (simp add: invoke_authorization t)
  with t show ?thesis ..
qed

theorem empty_token_sends_no_authorization_witness:
  "header_sent (fst (invoke (mock_world (signed_in []) response_200_ok)
       (apiService (mock_world (signed_in []) response_200_ok)) GetProfile)) ''Authorization''
     = [None]"
proof -
  have a: "currentUser (mock_world (signed_in []) response_200_ok) = Some \<lparr>getIdToken = Inr []\<rparr>"
    by (simp add: mock_world_def signed_in_def)
  have b: "getIdToken \<lparr>getIdToken = Inr []\<rparr> = Inr []"
    by simp
  show ?thesis
    using empty_token_sends_no_authorization [OF a b,
        where this = "apiService (mock_world (signed_in []) response_200_ok)" and op = GetProfile]
    by blast
qed

subsection \<open>C10: a body that is not JSON\<close>

text \<open>
  C10. For every operation, if the body of the response with which \<^verbatim>\<open>fetch\<close> answers
  is not JSON, so that \<^verbatim>\<open>response.json()\<close> throws, the call rejects with that error
  whatever the status is, also in the success range: no operation resolves with such a
  body.
\<close>

theorem unparseable_body_rejects:
  assumes "\<And>url request. fetch w url request = Inr response"
    and "json response = Inl e"
  shows "snd (invoke w this op) = Inl e"
proof -
  have "answers w (fst (invoke w this op)) = [Inr response]"
    using assms(1) by (rule answers_constant_fetch)
  then have "snd (invoke w this op) = handle_response w response"
    using invoke_answered [of w this op "Inr response"] by simp
  also have "\<dots> = Inl e"
    using assms(2) by (rule handle_response_not_json)
  finally show ?thesis .
qed

theorem unparseable_body_rejects_witness:
  "ok response_200_not_json
   \<and> snd (invoke (mock_world (signed_in ''tok'') response_200_not_json)
          (apiService (mock_world (signed_in ''tok'') response_200_not_json)) GetProfile)
     = Inl (JSError ''SyntaxError'' ''Unexpected end of JSON input'')"
proof -
  let ?w = "mock_world (signed_in ''tok'') response_200_not_json"
  have a: "\<And>url request. fetch ?w url request = Inr response_200_not_json"
    by (simp add: mock_world_def)
  have b: "json response_200_not_json = Inl (JSError ''SyntaxError'' ''Unexpected end of JSON input'')"
    by (simp add: response_200_not_json_def not_json_def)
  have c: "ok response_200_not_json"
    by (simp add: ok_def response_200_not_json_def)
  show ?thesis
    using unparseable_body_rejects [OF a b,
        where this = "apiService ?w" and op = GetProfile] c
    by blast
qed

end
